theory Spec2Isabelle
  imports Main
begin

section \<open>JavaScript values\<close>

text \<open>
  The middleware of \<^verbatim>\<open>backend/middleware/auth.js\<close> and
  \<^verbatim>\<open>backend/middleware/errorHandler.js\<close> tests its inputs with the
  operators \<^verbatim>\<open>!\<close>, \<^verbatim>\<open>||\<close> and \<^verbatim>\<open>&&\<close>, which look at the
  truthiness of a value, and builds plain objects. Values are therefore modelled as
  JSON-like data. Numbers are the integers (status codes) and \<open>NaN\<close>; an object is
  the list of its own properties in insertion order.
\<close>

datatype js_value =
    JUndefined
  | JNull
  | JBool bool
  | JNum int
  | JNaN
  | JStr string
  | JArr "js_value list"
  | JObj "(string \<times> js_value) list"

text \<open>The falsy values are \<open>undefined\<close>, \<open>null\<close>, \<open>false\<close>, \<open>0\<close>, \<open>NaN\<close> and the
  empty string; every object and array is truthy.\<close>

fun truthy :: "js_value \<Rightarrow> bool" where
  "truthy JUndefined = False"
| "truthy JNull = False"
| "truthy (JBool b) = b"
| "truthy (JNum n) = (n \<noteq> 0)"
| "truthy JNaN = False"
| "truthy (JStr s) = (s \<noteq> [])"
| "truthy (JArr xs) = True"
| "truthy (JObj kvs) = True"

text \<open>\<^verbatim>\<open>a || b\<close> yields \<open>a\<close> when it is truthy and \<open>b\<close> otherwise.\<close>

definition js_or :: "js_value \<Rightarrow> js_value \<Rightarrow> js_value" where
  "js_or a b = (if truthy a then a else b)"

text \<open>\<^verbatim>\<open>o[k]\<close> on a value that is neither \<open>null\<close> nor \<open>undefined\<close>: the own
  property of an object, \<open>undefined\<close> when there is none. (The callers below read
  properties of truthy values and of objects they built themselves only.)\<close>

fun js_get :: "js_value \<Rightarrow> string \<Rightarrow> js_value" where
  "js_get (JObj kvs) k = (case map_of kvs k of Some v \<Rightarrow> v | None \<Rightarrow> JUndefined)"
| "js_get v k = JUndefined"

text \<open>\<^verbatim>\<open>Object.keys(o)\<close>: the names of the own properties, in order.\<close>

fun keys :: "js_value \<Rightarrow> string list" where
  "keys (JObj kvs) = map fst kvs"
| "keys v = []"

section \<open>Configuration\<close>

text \<open>The two settings of \<^verbatim>\<open>config.js\<close> the middleware reads:
  \<^verbatim>\<open>config.jwt.secret\<close> and \<^verbatim>\<open>config.server.env\<close>.\<close>

record config =
  jwt_secret :: string
  server_env :: string

section \<open>Errors\<close>

text \<open>
  A thrown value, as far as the middleware looks at it: whether it is an instance of
  the class \<^verbatim>\<open>APIError\<close> and its properties \<^verbatim>\<open>name\<close>, \<^verbatim>\<open>message\<close>,
  \<^verbatim>\<open>status\<close>, \<^verbatim>\<open>details\<close> and \<^verbatim>\<open>stack\<close>. A property that a thrown
  value does not have is \<open>JUndefined\<close>.
\<close>

record js_error =
  instanceof_APIError :: bool
  name :: string
  message :: string
  status :: js_value
  details :: js_value
  stack :: js_value

text \<open>
  \<^verbatim>\<open>class APIError extends Error { constructor(message, status = 500, details = null) }\<close>.
  A default applies when the argument is \<open>undefined\<close>. The \<open>Error\<close> constructor
  records the stack trace, whose first line is \<open>Error: \<close> and the message; the
  call-site frames that the engine appends are left out.
\<close>

definition APIError :: "string \<Rightarrow> js_value \<Rightarrow> js_value \<Rightarrow> js_error" where
  "APIError msg st det =
     \<lparr> instanceof_APIError = True,
       name = ''APIError'',
       message = msg,
       status = (if st = JUndefined then JNum 500 else st),
       details = (if det = JUndefined then JNull else det),
       stack = JStr (''Error: '' @ msg) \<rparr>"

section \<open>The error handler\<close>

text \<open>What \<^verbatim>\<open>res.status(statusCode).json(errorResponse)\<close> hands to the framework.\<close>

record http_response =
  res_status :: js_value
  res_json :: js_value

text \<open>
  \<^verbatim>\<open>errorHandler(err, req, res, next)\<close>. The spread of
  \<^verbatim>\<open>err.details && { details: err.details }\<close> adds the property when
  \<^verbatim>\<open>err.details\<close> is truthy and nothing otherwise; likewise for the stack and the
  environment test.
\<close>

definition errorHandler :: "config \<Rightarrow> js_error \<Rightarrow> http_response" where
  "errorHandler cfg err =
     (let isAPIError = instanceof_APIError err;
          statusCode = js_or (status err) (JNum 500);
          errorResponse =
            JObj [(''error'', JObj (
              [(''message'', JStr (if isAPIError then message err else ''Internal Server Error'')),
               (''status'', statusCode)]
              @ (if truthy (details err) then [(''details'', details err)] else [])
              @ (if server_env cfg = ''development'' then [(''stack'', stack err)] else [])))]
      in \<lparr> res_status = statusCode, res_json = errorResponse \<rparr>)"

text \<open>The object that \<^verbatim>\<open>errorHandler\<close> writes with \<^verbatim>\<open>console.error\<close> first.\<close>

definition errorLog :: "config \<Rightarrow> js_error \<Rightarrow> js_value" where
  "errorLog cfg err =
     JObj [(''message'', JStr (message err)),
           (''stack'', if server_env cfg = ''development'' then stack err else JUndefined),
           (''details'', details err)]"

text \<open>The \<^verbatim>\<open>error\<close> object of a response body.\<close>

definition envelope :: "http_response \<Rightarrow> js_value" where
  "envelope r = js_get (res_json r) ''error''"

section \<open>Strings\<close>

text \<open>\<^verbatim>\<open>s.startsWith(p)\<close>.\<close>

definition startsWith :: "string \<Rightarrow> string \<Rightarrow> bool" where
  "startsWith s p = (take (length p) s = p)"

text \<open>\<^verbatim>\<open>s.split(c)\<close> for a one-character separator: the pieces between the
  separators, one piece more than there are separators.\<close>

fun js_split :: "char \<Rightarrow> string \<Rightarrow> string list" where
  "js_split c [] = [[]]"
| "js_split c (x # xs) =
     (if x = c then [] # js_split c xs
      else (case js_split c xs of
              [] \<Rightarrow> [[x]]
            | w # ws \<Rightarrow> (x # w) # ws))"

text \<open>\<^verbatim>\<open>xs[i]\<close>: reading past the end of an array yields \<open>undefined\<close>.\<close>

definition at :: "'a list \<Rightarrow> nat \<Rightarrow> 'a option" where
  "at xs i = (if i < length xs then Some (xs ! i) else None)"

section \<open>The token library\<close>

text \<open>
  \<^verbatim>\<open>jwt.verify(token, secret)\<close> belongs to the package \<^verbatim>\<open>jsonwebtoken\<close>, not
  to this repository, and is a parameter of the model. It reads the clock (to compare
  it with the expiration claim), the token and the secret, and either returns the
  decoded payload or throws an error of the library, of which the middleware reads
  \<^verbatim>\<open>name\<close> and \<^verbatim>\<open>message\<close>. The clock counts seconds.
\<close>

datatype verify_result =
    Decoded js_value
  | Thrown string string

type_synonym jwt_verify = "nat \<Rightarrow> string option \<Rightarrow> string \<Rightarrow> verify_result"

text \<open>An error of the library as a thrown value: it is no \<^verbatim>\<open>APIError\<close> and has
  neither \<^verbatim>\<open>status\<close> nor \<^verbatim>\<open>details\<close>.\<close>

definition library_error :: "string \<Rightarrow> string \<Rightarrow> js_error" where
  "library_error nm msg =
     \<lparr> instanceof_APIError = False,
       name = nm,
       message = msg,
       status = JUndefined,
       details = JUndefined,
       stack = JStr (nm @ '': '' @ msg) \<rparr>"

section \<open>The authentication middleware\<close>

text \<open>Of a request the middleware reads \<^verbatim>\<open>req.headers.authorization\<close> (absent
  or a string) and reads and writes \<^verbatim>\<open>req.user\<close>. Whatever else a request holds
  is the \<open>more\<close> part of the record.\<close>

record request =
  authorization :: "string option"
  user :: js_value

text \<open>\<^verbatim>\<open>const token = authHeader.split(' ')[1]\<close>.\<close>

definition bearer_token :: "string \<Rightarrow> string option" where
  "bearer_token authHeader = at (js_split CHR '' '' authHeader) 1"

text \<open>
  \<^verbatim>\<open>auth(req, res, next)\<close>. The result is what the middleware hands on:
  \<open>Inl\<close> the error given to \<^verbatim>\<open>next(error)\<close>, \<open>Inr\<close> the request as
  \<^verbatim>\<open>next()\<close> passes it to the handlers that follow.
\<close>

definition auth ::
  "config \<Rightarrow> jwt_verify \<Rightarrow> nat \<Rightarrow> 'a request_scheme \<Rightarrow> js_error + 'a request_scheme" where
  "auth cfg verify now req =
     (case authorization req of
        None \<Rightarrow> Inl (APIError ''No authentication token provided'' (JNum 401) JUndefined)
      | Some authHeader \<Rightarrow>
          if authHeader = [] then
            Inl (APIError ''No authentication token provided'' (JNum 401) JUndefined)
          else if \<not> startsWith authHeader ''Bearer '' then
            Inl (APIError ''Invalid token format'' (JNum 401) JUndefined)
          else
            (case verify now (bearer_token authHeader) (jwt_secret cfg) of
               Decoded decoded \<Rightarrow> Inr (req\<lparr> user := decoded \<rparr>)
             | Thrown nm msg \<Rightarrow>
                 if nm = ''TokenExpiredError'' then
                   Inl (APIError ''Token has expired'' (JNum 401) JUndefined)
                 else if nm = ''JsonWebTokenError'' then
                   Inl (APIError ''Invalid token'' (JNum 401) JUndefined)
                 else Inl (library_error nm msg)))"

text \<open>
  \<^verbatim>\<open>optionalAuth(req, res, next)\<close>, with the same reading of the result. The
  warning it prints when verification fails is \<open>optionalAuth_warning\<close>.
\<close>

definition optionalAuth ::
  "config \<Rightarrow> jwt_verify \<Rightarrow> nat \<Rightarrow> 'a request_scheme \<Rightarrow> js_error + 'a request_scheme" where
  "optionalAuth cfg verify now req =
     (case authorization req of
        None \<Rightarrow> Inr req
      | Some authHeader \<Rightarrow>
          if authHeader = [] \<or> \<not> startsWith authHeader ''Bearer '' then Inr req
          else
            (case verify now (bearer_token authHeader) (jwt_secret cfg) of
               Decoded decoded \<Rightarrow> Inr (req\<lparr> user := decoded \<rparr>)
             | Thrown nm msg \<Rightarrow> Inr req))"

definition optionalAuth_warning ::
  "config \<Rightarrow> jwt_verify \<Rightarrow> nat \<Rightarrow> 'a request_scheme \<Rightarrow> string option" where
  "optionalAuth_warning cfg verify now req =
     (case authorization req of
        None \<Rightarrow> None
      | Some authHeader \<Rightarrow>
          if authHeader = [] \<or> \<not> startsWith authHeader ''Bearer '' then None
          else
            (case verify now (bearer_token authHeader) (jwt_secret cfg) of
               Decoded decoded \<Rightarrow> None
             | Thrown nm msg \<Rightarrow>
                 Some (''Optional auth token verification failed: '' @ msg)))"

section \<open>Authorization by role\<close>

text \<open>\<^verbatim>\<open>authorize(roles = [])\<close> takes one role name or an array of them.\<close>

datatype roles_arg =
    RoleName string
  | RoleList "string list"

text \<open>\<^verbatim>\<open>if (typeof roles === 'string') roles = [roles]\<close>.\<close>

definition allowed_roles :: "roles_arg \<Rightarrow> string list" where
  "allowed_roles roles = (case roles of RoleName r \<Rightarrow> [r] | RoleList rs \<Rightarrow> rs)"

text \<open>\<^verbatim>\<open>roles.includes(v)\<close> for an array of strings: only a string equals one.\<close>

definition js_includes :: "string list \<Rightarrow> js_value \<Rightarrow> bool" where
  "js_includes roles v = (case v of JStr s \<Rightarrow> s \<in> set roles | _ \<Rightarrow> False)"

text \<open>The middleware that \<^verbatim>\<open>authorize(roles)\<close> returns; \<open>Inl\<close> is the error it
  throws, \<open>Inr\<close> the request it passes on with \<^verbatim>\<open>next()\<close>.\<close>

definition authorize :: "roles_arg \<Rightarrow> 'a request_scheme \<Rightarrow> js_error + 'a request_scheme" where
  "authorize roles req =
     (if \<not> truthy (user req) then
        Inl (APIError ''User not authenticated'' (JNum 401) JUndefined)
      else if allowed_roles roles \<noteq> []
              \<and> \<not> js_includes (allowed_roles roles) (js_get (user req) ''role'') then
        Inl (APIError ''Unauthorized - Insufficient permissions'' (JNum 403) JUndefined)
      else Inr req)"

text \<open>A middleware fails with a status when it hands on an error of that status.\<close>

definition fails_with :: "int \<Rightarrow> js_error + 'b \<Rightarrow> bool" where
  "fails_with code r = (case r of Inl e \<Rightarrow> status e = JNum code | Inr x \<Rightarrow> False)"

section \<open>Properties of the error handler\<close>

lemma envelope_errorHandler:
  "envelope (errorHandler cfg err) =
     JObj ([(''message'', JStr (if instanceof_APIError err then message err
                                else ''Internal Server Error'')),
            (''status'', js_or (status err) (JNum 500))]
           @ (if truthy (details err) then [(''details'', details err)] else [])
           @ (if server_env cfg = ''development'' then [(''stack'', stack err)] else []))"
  by (simp add: envelope_def errorHandler_def Let_def)

lemma res_status_errorHandler:
  "res_status (errorHandler cfg err) = js_or (status err) (JNum 500)"
  by (simp add: errorHandler_def Let_def)

text \<open>A status that is absent or falsy, \<open>0\<close> included, is answered with 500, also for
  an \<^verbatim>\<open>APIError\<close>.\<close>

lemma errorHandler_falsy_status:
  "\<not> truthy (status err) \<Longrightarrow> res_status (errorHandler cfg err) = JNum 500"
  by (simp add: res_status_errorHandler js_or_def)

text \<open>
  Claim C10. An error that is not an \<^verbatim>\<open>APIError\<close> but has a truthy
  \<^verbatim>\<open>status\<close> is answered with that status, both as the HTTP status code and in
  the envelope, and not with 500; its message is still replaced by the fixed string
  \<open>Internal Server Error\<close>; and a truthy \<^verbatim>\<open>details\<close> is attached to the
  envelope although the error is not recognized.
\<close>

theorem errorHandler_foreign_status:
  assumes "\<not> instanceof_APIError err" and "truthy (status err)"
  shows "res_status (errorHandler cfg err) = status err
       \<and> js_get (envelope (errorHandler cfg err)) ''status'' = status err
       \<and> js_get (envelope (errorHandler cfg err)) ''message'' = JStr ''Internal Server Error''
       \<and> (truthy (details err) \<longrightarrow>
            js_get (envelope (errorHandler cfg err)) ''details'' = details err)"
  using assms by (simp add: envelope_errorHandler res_status_errorHandler js_or_def)

theorem errorHandler_foreign_status_witness:
  "res_status (errorHandler \<lparr> jwt_secret = ''your-secret-key'', server_env = ''production'' \<rparr>
      \<lparr> instanceof_APIError = False, name = ''ValidationError'',
        message = ''email is not valid'', status = JNum 422,
        details = JObj [(''field'', JStr ''email'')],
        stack = JStr ''ValidationError: email is not valid'' \<rparr>) = JNum 422
   \<and> res_json (errorHandler \<lparr> jwt_secret = ''your-secret-key'', server_env = ''production'' \<rparr>
      \<lparr> instanceof_APIError = False, name = ''ValidationError'',
        message = ''email is not valid'', status = JNum 422,
        details = JObj [(''field'', JStr ''email'')],
        stack = JStr ''ValidationError: email is not valid'' \<rparr>)
     = JObj [(''error'', JObj [(''message'', JStr ''Internal Server Error''),
                               (''status'', JNum 422),
                               (''details'', JObj [(''field'', JStr ''email'')])])]"
proof -
  let ?cfg = "\<lparr> jwt_secret = ''your-secret-key'', server_env = ''production'' \<rparr>"
  let ?e = "\<lparr> instanceof_APIError = False, name = ''ValidationError'',
        message = ''email is not valid'', status = JNum 422,
        details = JObj [(''field'', JStr ''email'')],
        stack = JStr ''ValidationError: email is not valid'' \<rparr>"
  have "res_status (errorHandler ?cfg ?e) = JNum 422"
    using errorHandler_foreign_status [of ?e ?cfg] by simp
  moreover have "res_json (errorHandler ?cfg ?e)
     = JObj [(''error'', JObj [(''message'', JStr ''Internal Server Error''),
                               (''status'', JNum 422),
                               (''details'', JObj [(''field'', JStr ''email'')])])]"
    by (simp add: errorHandler_def Let_def js_or_def)
  ultimately show ?thesis by simp
qed

lemma keys_errorHandler:
  "keys (res_json (errorHandler cfg err)) = [''error'']"
  by (simp add: errorHandler_def Let_def)

lemma keys_envelope_errorHandler:
  "keys (envelope (errorHandler cfg err)) =
     [''message'', ''status'']
     @ (if truthy (details err) then [''details''] else [])
     @ (if server_env cfg = ''development'' then [''stack''] else [])"
  by (simp add: envelope_errorHandler)

lemma truthy_stack_APIError: "truthy (stack (APIError msg st det))"
  by (simp add: APIError_def)

text \<open>
  Claim C2, as stated, fails: the handler spreads \<^verbatim>\<open>details\<close> into the
  envelope only when it is truthy, so a structured error whose details are present
  but falsy (here the number \<open>0\<close>) is answered without them.
\<close>

theorem errorHandler_details_counterexample:
  "instanceof_APIError (APIError ''Quota exhausted'' (JNum 429) (JNum 0))
   \<and> details (APIError ''Quota exhausted'' (JNum 429) (JNum 0)) = JNum 0
   \<and> keys (envelope (errorHandler \<lparr> jwt_secret = ''your-secret-key'', server_env = ''production'' \<rparr>
        (APIError ''Quota exhausted'' (JNum 429) (JNum 0)))) = [''message'', ''status'']"
  by (simp add: keys_envelope_errorHandler) (simp add: APIError_def)

text \<open>
  Claim C2, amended. For every error that is an \<^verbatim>\<open>APIError\<close> and has a truthy
  status (any status code but \<open>0\<close>): the HTTP status code and the \<^verbatim>\<open>status\<close> of
  the envelope are that status, the \<^verbatim>\<open>message\<close> of the envelope is the
  error's message, \<^verbatim>\<open>details\<close> is attached with the error's value when that
  value is truthy and left out otherwise, and the body is an object with the one
  property \<^verbatim>\<open>error\<close>, whose properties are \<^verbatim>\<open>message\<close>, \<^verbatim>\<open>status\<close>,
  then \<^verbatim>\<open>details\<close> and \<^verbatim>\<open>stack\<close> where they apply.
\<close>

theorem errorHandler_structured:
  assumes "instanceof_APIError err" and "truthy (status err)"
  shows "res_status (errorHandler cfg err) = status err
       \<and> js_get (envelope (errorHandler cfg err)) ''status'' = status err
       \<and> js_get (envelope (errorHandler cfg err)) ''message'' = JStr (message err)
       \<and> (truthy (details err) \<longrightarrow>
            js_get (envelope (errorHandler cfg err)) ''details'' = details err)
       \<and> (\<not> truthy (details err) \<longrightarrow>
            ''details'' \<notin> set (keys (envelope (errorHandler cfg err))))
       \<and> keys (res_json (errorHandler cfg err)) = [''error'']
       \<and> keys (envelope (errorHandler cfg err)) =
            [''message'', ''status'']
            @ (if truthy (details err) then [''details''] else [])
            @ (if server_env cfg = ''development'' then [''stack''] else [])"
proof -
  have "res_status (errorHandler cfg err) = status err"
    using assms(2) by (simp add: res_status_errorHandler js_or_def)
  moreover have "js_get (envelope (errorHandler cfg err)) ''status'' = status err"
    using assms(2) by (simp add: envelope_errorHandler js_or_def)
  moreover have "js_get (envelope (errorHandler cfg err)) ''message'' = JStr (message err)"
    using assms(1) by (simp add: envelope_errorHandler)
  moreover have "truthy (details err) \<longrightarrow>
      js_get (envelope (errorHandler cfg err)) ''details'' = details err"
    by (simp add: envelope_errorHandler)
  moreover have "\<not> truthy (details err) \<longrightarrow>
      ''details'' \<notin> set (keys (envelope (errorHandler cfg err)))"
    by (simp add: keys_envelope_errorHandler)
  ultimately show ?thesis
    by (simp only: keys_errorHandler keys_envelope_errorHandler simp_thms)
qed

theorem errorHandler_structured_witness:
  "res_status (errorHandler \<lparr> jwt_secret = ''your-secret-key'', server_env = ''production'' \<rparr>
      (APIError ''Payment not found'' (JNum 404) JUndefined)) = JNum 404
   \<and> res_json (errorHandler \<lparr> jwt_secret = ''your-secret-key'', server_env = ''production'' \<rparr>
      (APIError ''Payment not found'' (JNum 404) JUndefined))
     = JObj [(''error'', JObj [(''message'', JStr ''Payment not found''), (''status'', JNum 404)])]
   \<and> js_get (envelope (errorHandler \<lparr> jwt_secret = ''your-secret-key'', server_env = ''production'' \<rparr>
      (APIError ''Invalid input'' (JNum 400) (JArr [JStr ''email'']))))
      ''details'' = JArr [JStr ''email'']"
proof -
  let ?cfg = "\<lparr> jwt_secret = ''your-secret-key'', server_env = ''production'' \<rparr>"
  have a: "instanceof_APIError (APIError ''Payment not found'' (JNum 404) JUndefined)"
    and b: "truthy (status (APIError ''Payment not found'' (JNum 404) JUndefined))"
    and c: "instanceof_APIError (APIError ''Invalid input'' (JNum 400) (JArr [JStr ''email'']))"
    and d: "truthy (status (APIError ''Invalid input'' (JNum 400) (JArr [JStr ''email''])))"
    and e: "details (APIError ''Invalid input'' (JNum 400) (JArr [JStr ''email'']))
              = JArr [JStr ''email'']"
    by (simp_all add: APIError_def)
  have "res_status (errorHandler ?cfg (APIError ''Payment not found'' (JNum 404) JUndefined))
          = JNum 404"
    using errorHandler_structured [OF a b, of ?cfg] by (simp add: APIError_def)
  moreover have "res_json (errorHandler ?cfg (APIError ''Payment not found'' (JNum 404) JUndefined))
      = JObj [(''error'', JObj [(''message'', JStr ''Payment not found''), (''status'', JNum 404)])]"
    by (simp add: errorHandler_def APIError_def js_or_def Let_def)
  moreover have "js_get (envelope (errorHandler ?cfg
      (APIError ''Invalid input'' (JNum 400) (JArr [JStr ''email''])))) ''details''
      = JArr [JStr ''email'']"
    using errorHandler_structured [OF c d, of ?cfg] e by simp
  ultimately show ?thesis by simp
qed





text \<open>
  Claim C7, as stated, fails in its last part: the handler copies \<^verbatim>\<open>err.stack\<close>
  as it is, and a thrown value need not be an \<open>Error\<close>. For a plain object that a
  handler rejects with, the envelope in development mode has a \<^verbatim>\<open>stack\<close> that is
  \<open>undefined\<close>, not a non-empty string (and the serialised body has no such field).
\<close>

theorem errorHandler_stack_nonempty_counterexample:
  "js_get (envelope (errorHandler \<lparr> jwt_secret = ''your-secret-key'', server_env = ''development'' \<rparr>
       \<lparr> instanceof_APIError = False, name = [], message = ''Service unavailable'',
         status = JNum 503, details = JUndefined, stack = JUndefined \<rparr>)) ''stack''
     = JUndefined
   \<and> \<not> truthy (js_get (envelope (errorHandler
        \<lparr> jwt_secret = ''your-secret-key'', server_env = ''development'' \<rparr>
        \<lparr> instanceof_APIError = False, name = [], message = ''Service unavailable'',
          status = JNum 503, details = JUndefined, stack = JUndefined \<rparr>)) ''stack'')"
  by (simp add: envelope_errorHandler)

text \<open>
  Claim C7, amended. The envelope has a \<^verbatim>\<open>stack\<close> property if and only if the
  configured environment is \<open>development\<close>; in production it has none, whatever the
  error. In development the property holds the error's own stack, which is a
  non-empty string whenever the error carries a stack trace, as every error built by
  the \<^verbatim>\<open>APIError\<close> constructor does.
\<close>

theorem errorHandler_stack_iff_development:
  "(''stack'' \<in> set (keys (envelope (errorHandler cfg err)))
      \<longleftrightarrow> server_env cfg = ''development'')
   \<and> (server_env cfg = ''production'' \<longrightarrow>
        ''stack'' \<notin> set (keys (envelope (errorHandler cfg err))))
   \<and> (server_env cfg = ''development'' \<longrightarrow>
        js_get (envelope (errorHandler cfg err)) ''stack'' = stack err)
   \<and> (server_env cfg = ''development'' \<longrightarrow> stack err = JStr trace \<longrightarrow> trace \<noteq> [] \<longrightarrow>
        truthy (js_get (envelope (errorHandler cfg err)) ''stack''))
   \<and> (server_env cfg = ''development'' \<longrightarrow>
        truthy (js_get (envelope (errorHandler cfg (APIError msg st det))) ''stack''))"
proof -
  have k: "''stack'' \<in> set (keys (envelope (errorHandler cfg err)))
      \<longleftrightarrow> server_env cfg = ''development''"
    by (simp add: keys_envelope_errorHandler)
  have p: "server_env cfg = ''production'' \<longrightarrow>
      ''stack'' \<notin> set (keys (envelope (errorHandler cfg err)))"
    by (simp add: keys_envelope_errorHandler)
  have v: "server_env cfg = ''development'' \<longrightarrow>
      js_get (envelope (errorHandler cfg e)) ''stack'' = stack e" for e
    by (simp add: envelope_errorHandler)
  have t: "server_env cfg = ''development'' \<longrightarrow> stack err = JStr trace \<longrightarrow> trace \<noteq> [] \<longrightarrow>
      truthy (js_get (envelope (errorHandler cfg err)) ''stack'')"
    using v [of err] by simp
  have a: "server_env cfg = ''development'' \<longrightarrow>
      truthy (js_get (envelope (errorHandler cfg (APIError msg st det))) ''stack'')"
    using v [of "APIError msg st det"] by (simp add: truthy_stack_APIError)
  from k p v [of err] t a show ?thesis by blast
qed

theorem errorHandler_stack_iff_development_witness:
  "''stack'' \<in> set (keys (envelope (errorHandler
        \<lparr> jwt_secret = ''your-secret-key'', server_env = ''development'' \<rparr>
        (APIError ''Payment not found'' (JNum 404) JUndefined))))
   \<and> truthy (js_get (envelope (errorHandler
        \<lparr> jwt_secret = ''your-secret-key'', server_env = ''development'' \<rparr>
        (APIError ''Payment not found'' (JNum 404) JUndefined))) ''stack'')
   \<and> ''stack'' \<notin> set (keys (envelope (errorHandler
        \<lparr> jwt_secret = ''your-secret-key'', server_env = ''production'' \<rparr>
        (APIError ''Payment not found'' (JNum 404) JUndefined))))"
proof -
  let ?dev = "\<lparr> jwt_secret = ''your-secret-key'', server_env = ''development'' \<rparr>"
  let ?prod = "\<lparr> jwt_secret = ''your-secret-key'', server_env = ''production'' \<rparr>"
  let ?e = "APIError ''Payment not found'' (JNum 404) JUndefined"
  have "''stack'' \<in> set (keys (envelope (errorHandler ?dev ?e)))
      \<and> truthy (js_get (envelope (errorHandler ?dev ?e)) ''stack'')"
    using errorHandler_stack_iff_development
      [of ?dev ?e "''Error: Payment not found''" "''Payment not found''" "JNum 404" JUndefined]
    by (simp add: truthy_stack_APIError)
  moreover have "''stack'' \<notin> set (keys (envelope (errorHandler ?prod ?e)))"
    using errorHandler_stack_iff_development [of ?prod ?e] by simp
  ultimately show ?thesis by simp
qed

section \<open>Properties of the authentication middleware\<close>

lemma js_split_not_Nil: "js_split c s \<noteq> []"
  by (induction s) (auto split: list.splits)

lemma js_split_no_separator: "c \<notin> set s \<Longrightarrow> js_split c s = [s]"
  by (induction s) auto

lemma js_split_separator:
  "c \<notin> set a \<Longrightarrow> js_split c (a @ c # b) = a # js_split c b"
  by (induction a) auto

lemma startsWith_append: "startsWith (p @ s) p"
  by (simp add: startsWith_def)

lemma startsWith_Bearer_Nil: "\<not> startsWith [] ''Bearer ''"
  by (simp add: startsWith_def)

lemma bearer_token_Bearer:
  assumes "CHR '' '' \<notin> set tok"
  shows "bearer_token (''Bearer '' @ tok) = Some tok"
proof -
  have "js_split CHR '' '' (''Bearer'' @ CHR '' '' # tok) = ''Bearer'' # js_split CHR '' '' tok"
    by (rule js_split_separator) simp
  then have "js_split CHR '' '' (''Bearer '' @ tok) = [''Bearer'', tok]"
    using assms by (simp add: js_split_no_separator)
  then show ?thesis by (simp add: bearer_token_def at_def)
qed

text \<open>After the test of the prefix the token handed to the library is never \<open>undefined\<close>.\<close>

lemma bearer_token_defined:
  assumes "startsWith h ''Bearer ''"
  shows "\<exists>t. bearer_token h = Some t"
proof -
  define rest where "rest = drop (length ''Bearer '') h"
  from assms have "take (length ''Bearer '') h = ''Bearer ''"
    unfolding startsWith_def .
  then have "h = ''Bearer '' @ rest"
    unfolding rest_def by (metis append_take_drop_id)
  then have h: "h = ''Bearer'' @ CHR '' '' # rest"
    by simp
  have "js_split CHR '' '' (''Bearer'' @ CHR '' '' # rest)
          = ''Bearer'' # js_split CHR '' '' rest"
    by (rule js_split_separator) simp
  with h have s: "js_split CHR '' '' h = ''Bearer'' # js_split CHR '' '' rest"
    by simp
  show ?thesis
  proof (cases "js_split CHR '' '' rest")
    case Nil
    then show ?thesis by (simp add: js_split_not_Nil)
  next
    case (Cons t ts)
    with s show ?thesis by (simp add: bearer_token_def at_def)
  qed
qed

lemma status_APIError_401: "status (APIError msg (JNum 401) det) = JNum 401"
  by (simp add: APIError_def)

lemma status_library_error: "status (library_error nm msg) = JUndefined"
  by (simp add: library_error_def)

lemma auth_no_header:
  "authorization req = None \<Longrightarrow>
     auth cfg verify now req
       = Inl (APIError ''No authentication token provided'' (JNum 401) JUndefined)"
  by (simp add: auth_def)

lemma auth_bad_scheme:
  "authorization req = Some h \<Longrightarrow> \<not> startsWith h ''Bearer '' \<Longrightarrow>
     fails_with 401 (auth cfg verify now req)"
  by (simp add: auth_def fails_with_def status_APIError_401)

lemma auth_verified:
  "authorization req = Some h \<Longrightarrow> startsWith h ''Bearer '' \<Longrightarrow>
     auth cfg verify now req =
       (case verify now (bearer_token h) (jwt_secret cfg) of
          Decoded decoded \<Rightarrow> Inr (req\<lparr> user := decoded \<rparr>)
        | Thrown nm msg \<Rightarrow>
            if nm = ''TokenExpiredError'' then
              Inl (APIError ''Token has expired'' (JNum 401) JUndefined)
            else if nm = ''JsonWebTokenError'' then
              Inl (APIError ''Invalid token'' (JNum 401) JUndefined)
            else Inl (library_error nm msg))"
  by (auto simp: auth_def startsWith_Bearer_Nil)

text \<open>
  Claim C1. The middleware \<^verbatim>\<open>auth\<close> fails with status 401 in exactly four
  cases: the request has no \<^verbatim>\<open>Authorization\<close> header; the header does not start
  with \<open>Bearer \<close> (the empty header included); verification of the token fails with
  the library's \<^verbatim>\<open>JsonWebTokenError\<close> (a bad signature, a malformed token);
  or it fails with the library's \<^verbatim>\<open>TokenExpiredError\<close> (the expiration
  instant has passed). In every other case it succeeds or hands on an error of the
  library that has no status.
\<close>

theorem auth_401_iff:
  "fails_with 401 (auth cfg verify now req) \<longleftrightarrow>
     (authorization req = None
      \<or> (\<exists>h. authorization req = Some h \<and> \<not> startsWith h ''Bearer '')
      \<or> (\<exists>h msg. authorization req = Some h \<and> startsWith h ''Bearer ''
            \<and> verify now (bearer_token h) (jwt_secret cfg) = Thrown ''JsonWebTokenError'' msg)
      \<or> (\<exists>h msg. authorization req = Some h \<and> startsWith h ''Bearer ''
            \<and> verify now (bearer_token h) (jwt_secret cfg) = Thrown ''TokenExpiredError'' msg))"
proof (cases "authorization req")
  case None
  then show ?thesis
    by (simp add: auth_no_header fails_with_def status_APIError_401)
next
  case (Some h)
  show ?thesis
  proof (cases "startsWith h ''Bearer ''")
    case False
    with Some show ?thesis
      by (simp add: auth_bad_scheme)
  next
    case True
    show ?thesis
    proof (cases "verify now (bearer_token h) (jwt_secret cfg)")
      case (Decoded d)
      with Some True show ?thesis
        by (simp add: auth_verified fails_with_def)
    next
      case (Thrown nm msg)
      with Some True show ?thesis
        by (simp add: auth_verified fails_with_def status_APIError_401 status_library_error)
    qed
  qed
qed

theorem auth_401_iff_witness:
  "fails_with 401
     (auth \<lparr> jwt_secret = ''your-secret-key'', server_env = ''production'' \<rparr>
        (\<lambda>now token secret. Thrown ''JsonWebTokenError'' ''invalid signature'') 0
        \<lparr> authorization = Some ''Bearer abc.def.ghi'', user = JUndefined \<rparr>)
   \<and> fails_with 401
     (auth \<lparr> jwt_secret = ''your-secret-key'', server_env = ''production'' \<rparr>
        (\<lambda>now token secret. Decoded (JObj [(''role'', JStr ''user'')])) 0
        \<lparr> authorization = Some ''Basic dXNlcjpwdw=='', user = JUndefined \<rparr>)
   \<and> \<not> fails_with 401
     (auth \<lparr> jwt_secret = ''your-secret-key'', server_env = ''production'' \<rparr>
        (\<lambda>now token secret. Thrown ''NotBeforeError'' ''jwt not active'') 0
        \<lparr> authorization = Some ''Bearer abc.def.ghi'', user = JUndefined \<rparr>)"
proof -
  let ?cfg = "\<lparr> jwt_secret = ''your-secret-key'', server_env = ''production'' \<rparr>"
  have "fails_with 401
     (auth ?cfg (\<lambda>now token secret. Thrown ''JsonWebTokenError'' ''invalid signature'') 0
        \<lparr> authorization = Some ''Bearer abc.def.ghi'', user = JUndefined \<rparr>)"
    using auth_401_iff [of ?cfg "\<lambda>now token secret. Thrown ''JsonWebTokenError'' ''invalid signature''"
        0 "\<lparr> authorization = Some ''Bearer abc.def.ghi'', user = JUndefined \<rparr>"]
    by (simp add: startsWith_def)
  moreover have "fails_with 401
     (auth ?cfg (\<lambda>now token secret. Decoded (JObj [(''role'', JStr ''user'')])) 0
        \<lparr> authorization = Some ''Basic dXNlcjpwdw=='', user = JUndefined \<rparr>)"
    using auth_401_iff [of ?cfg "\<lambda>now token secret. Decoded (JObj [(''role'', JStr ''user'')])"
        0 "\<lparr> authorization = Some ''Basic dXNlcjpwdw=='', user = JUndefined \<rparr>"]
    by (simp add: startsWith_def)
  moreover have "\<not> fails_with 401
     (auth ?cfg (\<lambda>now token secret. Thrown ''NotBeforeError'' ''jwt not active'') 0
        \<lparr> authorization = Some ''Bearer abc.def.ghi'', user = JUndefined \<rparr>)"
    using auth_401_iff [of ?cfg "\<lambda>now token secret. Thrown ''NotBeforeError'' ''jwt not active''"
        0 "\<lparr> authorization = Some ''Bearer abc.def.ghi'', user = JUndefined \<rparr>"]
    by (simp add: startsWith_def)
  ultimately show ?thesis by simp
qed

lemma auth_bearer:
  assumes "CHR '' '' \<notin> set tok"
    and "authorization req = Some (''Bearer '' @ tok)"
    and "verify now (Some tok) (jwt_secret cfg) = Decoded claims"
  shows "auth cfg verify now req = Inr (req\<lparr> user := claims \<rparr>)"
proof -
  have "startsWith (''Bearer '' @ tok) ''Bearer ''"
    by (rule startsWith_append)
  with assms(2) have "auth cfg verify now req =
      (case verify now (bearer_token (''Bearer '' @ tok)) (jwt_secret cfg) of
         Decoded decoded \<Rightarrow> Inr (req\<lparr> user := decoded \<rparr>)
       | Thrown nm msg \<Rightarrow>
           if nm = ''TokenExpiredError'' then
             Inl (APIError ''Token has expired'' (JNum 401) JUndefined)
           else if nm = ''JsonWebTokenError'' then
             Inl (APIError ''Invalid token'' (JNum 401) JUndefined)
           else Inl (library_error nm msg))"
    by (rule auth_verified)
  also have "bearer_token (''Bearer '' @ tok) = Some tok"
    using assms(1) by (rule bearer_token_Bearer)
  finally show ?thesis
    using assms(3) by simp
qed

text \<open>
  Claim C5. For a request whose header is \<open>Bearer \<close> followed by a token (a token has
  no space in it) that the library verifies, returning its decoded claims,
  \<^verbatim>\<open>auth\<close> succeeds: it passes the request on to the handlers that follow with
  \<^verbatim>\<open>req.user\<close> set to exactly those claims, every property of the identity being
  the property of the claims, and with the rest of the request as it was.
\<close>

theorem auth_attaches_claims:
  assumes "CHR '' '' \<notin> set tok"
    and "authorization req = Some (''Bearer '' @ tok)"
    and "verify now (Some tok) (jwt_secret cfg) = Decoded claims"
  shows "auth cfg verify now req = Inr (req\<lparr> user := claims \<rparr>)
       \<and> (\<forall>r. auth cfg verify now req = Inr r \<longrightarrow>
             user r = claims \<and> (\<forall>k. js_get (user r) k = js_get claims k)
             \<and> authorization r = authorization req \<and> request.more r = request.more req)"
  using assms auth_bearer [of tok req verify now cfg claims] by simp

theorem auth_attaches_claims_witness:
  "auth \<lparr> jwt_secret = ''your-secret-key'', server_env = ''production'' \<rparr>
      (\<lambda>now token secret.
          if token = Some ''abc.def.ghi'' \<and> secret = ''your-secret-key'' \<and> now < 1700086400
          then Decoded (JObj [(''id'', JNum 7), (''email'', JStr ''a@b.c''),
                              (''role'', JStr ''admin''), (''exp'', JNum 1700086400)])
          else Thrown ''JsonWebTokenError'' ''invalid signature'')
      1700000000
      \<lparr> authorization = Some ''Bearer abc.def.ghi'', user = JUndefined \<rparr>
   = Inr \<lparr> authorization = Some ''Bearer abc.def.ghi'',
           user = JObj [(''id'', JNum 7), (''email'', JStr ''a@b.c''),
                        (''role'', JStr ''admin''), (''exp'', JNum 1700086400)] \<rparr>"
  using auth_attaches_claims
    [of "''abc.def.ghi''" "\<lparr> authorization = Some ''Bearer abc.def.ghi'', user = JUndefined \<rparr>"
        "\<lambda>now token secret.
          if token = Some ''abc.def.ghi'' \<and> secret = ''your-secret-key'' \<and> now < 1700086400
          then Decoded (JObj [(''id'', JNum 7), (''email'', JStr ''a@b.c''),
                              (''role'', JStr ''admin''), (''exp'', JNum 1700086400)])
          else Thrown ''JsonWebTokenError'' ''invalid signature''"
        1700000000
        "\<lparr> jwt_secret = ''your-secret-key'', server_env = ''production'' \<rparr>"
        "JObj [(''id'', JNum 7), (''email'', JStr ''a@b.c''),
               (''role'', JStr ''admin''), (''exp'', JNum 1700086400)]"]
  by simp

text \<open>
  Claim C9. Two calls of \<^verbatim>\<open>auth\<close> with the same valid token, at two instants
  before its expiration (at both the library verifies the token and returns the claims
  it encodes), on requests that may differ in everything but the header: each call
  succeeds and yields the request with \<^verbatim>\<open>req.user\<close> set to exactly the claims of
  the token, so the two identities have identical values, property by property; and a
  second call on the request that the first one passed on yields that request again.
\<close>

theorem auth_same_token_same_identity:
  assumes "CHR '' '' \<notin> set tok"
    and "authorization req1 = Some (''Bearer '' @ tok)"
    and "authorization req2 = Some (''Bearer '' @ tok)"
    and "verify t1 (Some tok) (jwt_secret cfg) = Decoded claims"
    and "verify t2 (Some tok) (jwt_secret cfg) = Decoded claims"
  shows "auth cfg verify t1 req1 = Inr (req1\<lparr> user := claims \<rparr>)
       \<and> auth cfg verify t2 req2 = Inr (req2\<lparr> user := claims \<rparr>)
       \<and> (\<forall>r1 r2. auth cfg verify t1 req1 = Inr r1 \<longrightarrow> auth cfg verify t2 req2 = Inr r2 \<longrightarrow>
              user r1 = claims \<and> user r2 = claims \<and> user r1 = user r2
              \<and> (\<forall>k. js_get (user r1) k = js_get (user r2) k))
       \<and> auth cfg verify t2 (req1\<lparr> user := claims \<rparr>) = Inr (req1\<lparr> user := claims \<rparr>)"
proof -
  let ?r1 = "req1\<lparr> user := claims \<rparr>" and ?r2 = "req2\<lparr> user := claims \<rparr>"
  have 1: "auth cfg verify t1 req1 = Inr ?r1"
    using assms(1,2,4) auth_bearer [of tok req1 verify t1 cfg claims] by simp
  have 2: "auth cfg verify t2 req2 = Inr ?r2"
    using assms(1,3,5) auth_bearer [of tok req2 verify t2 cfg claims] by simp
  have "authorization ?r1 = Some (''Bearer '' @ tok)"
    using assms(2) by simp
  with assms(1,5) have "auth cfg verify t2 ?r1 = Inr (?r1\<lparr> user := claims \<rparr>)"
    using auth_bearer [of tok ?r1 verify t2 cfg claims] by simp
  then have 3: "auth cfg verify t2 ?r1 = Inr ?r1"
    by simp
  from 1 2 3 show ?thesis by simp
qed

theorem auth_same_token_same_identity_witness:
  "auth \<lparr> jwt_secret = ''your-secret-key'', server_env = ''production'' \<rparr>
       (\<lambda>now token secret.
          if now < 1700086400 then Decoded (JObj [(''id'', JNum 7), (''role'', JStr ''user'')])
          else Thrown ''TokenExpiredError'' ''jwt expired'')
       1700000000
       \<lparr> authorization = Some ''Bearer abc.def.ghi'', user = JUndefined \<rparr>
     = Inr \<lparr> authorization = Some ''Bearer abc.def.ghi'',
             user = JObj [(''id'', JNum 7), (''role'', JStr ''user'')] \<rparr>
   \<and> auth \<lparr> jwt_secret = ''your-secret-key'', server_env = ''production'' \<rparr>
       (\<lambda>now token secret.
          if now < 1700086400 then Decoded (JObj [(''id'', JNum 7), (''role'', JStr ''user'')])
          else Thrown ''TokenExpiredError'' ''jwt expired'')
       1700000060
       \<lparr> authorization = Some ''Bearer abc.def.ghi'', user = JStr ''stale'' \<rparr>
     = Inr \<lparr> authorization = Some ''Bearer abc.def.ghi'',
             user = JObj [(''id'', JNum 7), (''role'', JStr ''user'')] \<rparr>"
proof -
  let ?cfg = "\<lparr> jwt_secret = ''your-secret-key'', server_env = ''production'' \<rparr>"
  let ?verify = "\<lambda>(now :: nat) (token :: string option) (secret :: string).
          if now < 1700086400 then Decoded (JObj [(''id'', JNum 7), (''role'', JStr ''user'')])
          else Thrown ''TokenExpiredError'' ''jwt expired''"
  let ?req1 = "\<lparr> authorization = Some ''Bearer abc.def.ghi'', user = JUndefined \<rparr>"
  let ?req2 = "\<lparr> authorization = Some ''Bearer abc.def.ghi'', user = JStr ''stale'' \<rparr>"
  have "auth ?cfg ?verify 1700000000 ?req1
          = Inr (?req1\<lparr> user := JObj [(''id'', JNum 7), (''role'', JStr ''user'')] \<rparr>)
      \<and> auth ?cfg ?verify 1700000060 ?req2
          = Inr (?req2\<lparr> user := JObj [(''id'', JNum 7), (''role'', JStr ''user'')] \<rparr>)"
    using auth_same_token_same_identity
      [of "''abc.def.ghi''" ?req1 ?req2 ?verify 1700000000 ?cfg
          "JObj [(''id'', JNum 7), (''role'', JStr ''user'')]" 1700000060]
    by simp
  then show ?thesis by simp
qed

text \<open>
  Claim C6. The middleware \<^verbatim>\<open>optionalAuth\<close> never fails: for every header, library
  and instant it passes a request on. Without a header, with a header that does not
  start with \<open>Bearer \<close>, and with a token whose verification throws (whatever the
  error), it passes the request on as it came, so an absent identity stays absent;
  with a token that verifies it attaches the decoded claims.
\<close>

theorem optionalAuth_never_fails:
  "(\<exists>r. optionalAuth cfg verify now req = Inr r)
   \<and> (authorization req = None \<longrightarrow> optionalAuth cfg verify now req = Inr req)
   \<and> (\<forall>h. authorization req = Some h \<longrightarrow> \<not> startsWith h ''Bearer '' \<longrightarrow>
          optionalAuth cfg verify now req = Inr req)
   \<and> (\<forall>h nm msg. authorization req = Some h \<longrightarrow> startsWith h ''Bearer '' \<longrightarrow>
          verify now (bearer_token h) (jwt_secret cfg) = Thrown nm msg \<longrightarrow>
          optionalAuth cfg verify now req = Inr req)
   \<and> (\<forall>h claims. authorization req = Some h \<longrightarrow> startsWith h ''Bearer '' \<longrightarrow>
          verify now (bearer_token h) (jwt_secret cfg) = Decoded claims \<longrightarrow>
          optionalAuth cfg verify now req = Inr (req\<lparr> user := claims \<rparr>))"
proof (cases "authorization req")
  case None
  then show ?thesis by (simp add: optionalAuth_def)
next
  case (Some h)
  show ?thesis
  proof (cases "startsWith h ''Bearer ''")
    case False
    with Some show ?thesis by (simp add: optionalAuth_def)
  next
    case True
    then have "h \<noteq> []"
      using startsWith_Bearer_Nil by blast
    with Some True show ?thesis
      by (cases "verify now (bearer_token h) (jwt_secret cfg)") (simp_all add: optionalAuth_def)
  qed
qed

theorem optionalAuth_never_fails_witness:
  "optionalAuth \<lparr> jwt_secret = ''your-secret-key'', server_env = ''production'' \<rparr>
      (\<lambda>now token secret. Thrown ''JsonWebTokenError'' ''invalid signature'') 0
      \<lparr> authorization = Some ''Bearer abc.def.ghi'', user = JUndefined \<rparr>
     = Inr \<lparr> authorization = Some ''Bearer abc.def.ghi'', user = JUndefined \<rparr>
   \<and> optionalAuth \<lparr> jwt_secret = ''your-secret-key'', server_env = ''production'' \<rparr>
      (\<lambda>now token secret. Decoded (JObj [(''role'', JStr ''user'')])) 0
      \<lparr> authorization = Some ''Bearer abc.def.ghi'', user = JUndefined \<rparr>
     = Inr \<lparr> authorization = Some ''Bearer abc.def.ghi'',
             user = JObj [(''role'', JStr ''user'')] \<rparr>
   \<and> optionalAuth \<lparr> jwt_secret = ''your-secret-key'', server_env = ''production'' \<rparr>
      (\<lambda>now token secret. Decoded (JObj [(''role'', JStr ''user'')])) 0
      \<lparr> authorization = None, user = JUndefined \<rparr>
     = Inr \<lparr> authorization = None, user = JUndefined \<rparr>"
proof -
  let ?cfg = "\<lparr> jwt_secret = ''your-secret-key'', server_env = ''production'' \<rparr>"
  let ?req = "\<lparr> authorization = Some ''Bearer abc.def.ghi'', user = JUndefined \<rparr>"
  have s: "startsWith ''Bearer abc.def.ghi'' ''Bearer ''"
    by (simp add: startsWith_def)
  have "optionalAuth ?cfg (\<lambda>now token secret. Thrown ''JsonWebTokenError'' ''invalid signature'')
          0 ?req = Inr ?req"
    using s optionalAuth_never_fails
      [of ?cfg "\<lambda>now token secret. Thrown ''JsonWebTokenError'' ''invalid signature''" 0 ?req]
    by simp
  moreover have "optionalAuth ?cfg (\<lambda>now token secret. Decoded (JObj [(''role'', JStr ''user'')]))
          0 ?req = Inr (?req\<lparr> user := JObj [(''role'', JStr ''user'')] \<rparr>)"
    using s optionalAuth_never_fails
      [of ?cfg "\<lambda>now token secret. Decoded (JObj [(''role'', JStr ''user'')])" 0 ?req]
    by simp
  moreover have "optionalAuth ?cfg (\<lambda>now token secret. Decoded (JObj [(''role'', JStr ''user'')]))
          0 \<lparr> authorization = None, user = JUndefined \<rparr>
        = Inr \<lparr> authorization = None, user = JUndefined \<rparr>"
    using optionalAuth_never_fails
      [of ?cfg "\<lambda>now token secret. Decoded (JObj [(''role'', JStr ''user'')])" 0
          "\<lparr> authorization = None, user = JUndefined \<rparr>"]
    by simp
  ultimately show ?thesis by simp
qed

section \<open>Properties of the authorization middleware\<close>

lemma allowed_roles_RoleName: "allowed_roles (RoleName r) = [r]"
  by (simp add: allowed_roles_def)

lemma allowed_roles_RoleList: "allowed_roles (RoleList rs) = rs"
  by (simp add: allowed_roles_def)

lemma status_APIError_403: "status (APIError msg (JNum 403) det) = JNum 403"
  by (simp add: APIError_def)

text \<open>
  Claim C4. The middleware returned by \<^verbatim>\<open>authorize(roles)\<close>: when the request has
  no identity (\<^verbatim>\<open>req.user\<close> is \<open>undefined\<close>, or any other falsy value) it fails
  with status 401. When the request has an identity (a decoded token payload, which
  is truthy), it succeeds if the set of allowed roles is empty, it succeeds if the
  \<^verbatim>\<open>role\<close> of the identity is one of the allowed roles, and in every other case it
  fails with status 403.
\<close>

theorem authorize_cases:
  "(user req = JUndefined \<longrightarrow> fails_with 401 (authorize roles req))
   \<and> (\<not> truthy (user req) \<longrightarrow> fails_with 401 (authorize roles req))
   \<and> (truthy (user req) \<longrightarrow> allowed_roles roles = [] \<longrightarrow> authorize roles req = Inr req)
   \<and> (\<forall>r. truthy (user req) \<longrightarrow> js_get (user req) ''role'' = JStr r \<longrightarrow>
          r \<in> set (allowed_roles roles) \<longrightarrow> authorize roles req = Inr req)
   \<and> (truthy (user req) \<longrightarrow> allowed_roles roles \<noteq> [] \<longrightarrow>
        (\<forall>r \<in> set (allowed_roles roles). js_get (user req) ''role'' \<noteq> JStr r) \<longrightarrow>
        fails_with 403 (authorize roles req))"
proof -
  have a: "\<not> truthy (user req) \<longrightarrow> fails_with 401 (authorize roles req)"
    by (simp add: authorize_def fails_with_def status_APIError_401)
  then have b: "user req = JUndefined \<longrightarrow> fails_with 401 (authorize roles req)"
    by simp
  have c: "truthy (user req) \<longrightarrow> allowed_roles roles = [] \<longrightarrow> authorize roles req = Inr req"
    by (simp add: authorize_def)
  have d: "\<forall>r. truthy (user req) \<longrightarrow> js_get (user req) ''role'' = JStr r \<longrightarrow>
      r \<in> set (allowed_roles roles) \<longrightarrow> authorize roles req = Inr req"
    by (simp add: authorize_def js_includes_def)
  have e: "truthy (user req) \<longrightarrow> allowed_roles roles \<noteq> [] \<longrightarrow>
      (\<forall>r \<in> set (allowed_roles roles). js_get (user req) ''role'' \<noteq> JStr r) \<longrightarrow>
      fails_with 403 (authorize roles req)"
    by (auto simp: authorize_def js_includes_def fails_with_def status_APIError_403
          split: js_value.splits)
  from a b c d e show ?thesis by blast
qed

theorem authorize_cases_witness:
  "fails_with 403 (authorize (RoleList [''admin''])
      \<lparr> authorization = None, user = JObj [(''id'', JNum 7), (''role'', JStr ''user'')] \<rparr>)
   \<and> authorize (RoleList [''admin''])
      \<lparr> authorization = None, user = JObj [(''id'', JNum 7), (''role'', JStr ''admin'')] \<rparr>
     = Inr \<lparr> authorization = None, user = JObj [(''id'', JNum 7), (''role'', JStr ''admin'')] \<rparr>
   \<and> authorize (RoleList [])
      \<lparr> authorization = None, user = JObj [(''id'', JNum 7), (''role'', JStr ''user'')] \<rparr>
     = Inr \<lparr> authorization = None, user = JObj [(''id'', JNum 7), (''role'', JStr ''user'')] \<rparr>
   \<and> fails_with 401 (authorize (RoleName ''admin'') \<lparr> authorization = None, user = JUndefined \<rparr>)"
proof -
  let ?u = "\<lparr> authorization = None, user = JObj [(''id'', JNum 7), (''role'', JStr ''user'')] \<rparr>"
  let ?a = "\<lparr> authorization = None, user = JObj [(''id'', JNum 7), (''role'', JStr ''admin'')] \<rparr>"
  have "fails_with 403 (authorize (RoleList [''admin'']) ?u)"
    using authorize_cases [of ?u "RoleList [''admin'']"]
    by (simp add: allowed_roles_RoleList)
  moreover have "authorize (RoleList [''admin'']) ?a = Inr ?a"
    using authorize_cases [of ?a "RoleList [''admin'']"]
    by (simp add: allowed_roles_RoleList)
  moreover have "authorize (RoleList []) ?u = Inr ?u"
    using authorize_cases [of ?u "RoleList []"]
    by (simp add: allowed_roles_RoleList)
  moreover have "fails_with 401 (authorize (RoleName ''admin'')
      \<lparr> authorization = None, user = JUndefined \<rparr>)"
    using authorize_cases [of "\<lparr> authorization = None, user = JUndefined \<rparr>" "RoleName ''admin''"]
    by simp
  ultimately show ?thesis by simp
qed

end
